theory Spec2Isabelle
  imports Complex_Main "HOL-Library.Word" "HOL-Library.Log_Nat"
begin

unbundle bit_operations_syntax

section \<open>The AD937x device wrapper (mpm/lib/mykonos/ad937x\_device.cpp)\<close>

text \<open>
  The C++ class \<^verbatim>\<open>ad937x_device\<close> sequences calls into the vendor's Mykonos API,
  turns vendor error codes into exceptions, converts between physical units and register
  codes, and keeps the gain-pin configuration.  The embedding below follows the source
  function by function: exceptions are values of type \<open>error\<close>, the mutable members and
  the log of every vendor call form the record \<open>dev_state\<close>, and the vendor API (a black
  box) is a parameter that answers each call from the calls made before it.  A definition
  has the name of the member function it embeds, without the leading underscore of the
  private ones.
\<close>

subsection \<open>C++ \<^verbatim>\<open>double\<close> values\<close>

text \<open>
  A finite \<^verbatim>\<open>double\<close> is the rational number it denotes.  Every arithmetic operation
  of the source computes the exact result and rounds it to the nearest value with a
  53-bit significand, ties to even (IEEE 754 binary64, the default rounding mode).  The
  exponent range is not bounded here: overflow to infinity, subnormal numbers and NaN are
  outside the model, and so are inputs of that kind.
\<close>

type_synonym double = rat

definition pow2 :: "int \<Rightarrow> rat" where
  "pow2 e = (if 0 \<le> e then 2 ^ nat e else 1 / 2 ^ nat (- e))"

text \<open>The binary exponent of a non-zero value: \<open>2 ^ e \<le> \<bar>x\<bar> < 2 ^ (e + 1)\<close>.\<close>

definition ilog2 :: "rat \<Rightarrow> int" where
  "ilog2 x =
     (if 1 \<le> \<bar>x\<bar> then bitlen \<lfloor>\<bar>x\<bar>\<rfloor> - 1
      else (let k = bitlen \<lfloor>1 / \<bar>x\<bar>\<rfloor> - 1
            in if \<bar>x\<bar> = pow2 (- k) then - k else - k - 1))"

definition round_half_even :: "rat \<Rightarrow> int" where
  "round_half_even q =
     (let f = \<lfloor>q\<rfloor>; d = q - of_int f
      in if d < 1 / 2 then f
         else if 1 / 2 < d then f + 1
         else if even f then f else f + 1)"

definition to_double :: "rat \<Rightarrow> double" where
  "to_double x =
     (if x = 0 then 0
      else (let u = pow2 (ilog2 x - 52) in of_int (round_half_even (x / u)) * u))"

text \<open>The values a \<^verbatim>\<open>double\<close> can hold are those that rounding leaves alone.\<close>

definition is_double :: "rat \<Rightarrow> bool" where
  "is_double x \<longleftrightarrow> to_double x = x"

definition dadd :: "double \<Rightarrow> double \<Rightarrow> double" where
  "dadd a b = to_double (a + b)"

definition dsub :: "double \<Rightarrow> double \<Rightarrow> double" where
  "dsub a b = to_double (a - b)"

definition dmul :: "double \<Rightarrow> double \<Rightarrow> double" where
  "dmul a b = to_double (a * b)"

definition ddiv :: "double \<Rightarrow> double \<Rightarrow> double" where
  "ddiv a b = to_double (a / b)"

text \<open>
  \<^verbatim>\<open>static_cast\<close> from \<^verbatim>\<open>double\<close> to an unsigned integer type discards the fraction
  (truncation toward zero).  C++ defines the result only when the truncated value fits
  the target type; outside that range the model wraps modulo the width.
\<close>

definition trunc_toward_zero :: "rat \<Rightarrow> int" where
  "trunc_toward_zero x = (if 0 \<le> x then \<lfloor>x\<rfloor> else \<lceil>x\<rceil>)"

definition double_to_uint8 :: "double \<Rightarrow> 8 word" where
  "double_to_uint8 x = word_of_int (trunc_toward_zero x)"

definition double_to_uint16 :: "double \<Rightarrow> 16 word" where
  "double_to_uint16 x = word_of_int (trunc_toward_zero x)"

definition double_to_uint64 :: "double \<Rightarrow> 64 word" where
  "double_to_uint64 x = word_of_int (trunc_toward_zero x)"

text \<open>An unsigned integer of at most 53 bits converts to \<^verbatim>\<open>double\<close> exactly.\<close>

definition uint8_to_double :: "8 word \<Rightarrow> double" where
  "uint8_to_double w = of_nat (unat w)"

definition uint16_to_double :: "16 word \<Rightarrow> double" where
  "uint16_to_double w = of_nat (unat w)"

definition uint64_to_double :: "64 word \<Rightarrow> double" where
  "uint64_to_double w = to_double (of_nat (unat w))"

subsection \<open>Constants\<close>

definition MIN_RX_GAIN :: double where "MIN_RX_GAIN = 0"
definition MAX_RX_GAIN :: double where "MAX_RX_GAIN = 30"
definition RX_GAIN_STEP :: double where "RX_GAIN_STEP = 1 / 2"
definition MIN_TX_GAIN :: double where "MIN_TX_GAIN = 0"
definition MAX_TX_GAIN :: double where "MAX_TX_GAIN = to_double (4195 / 100)"
definition TX_GAIN_STEP :: double where "TX_GAIN_STEP = to_double (5 / 100)"

definition RX_DEFAULT_FREQ :: double where "RX_DEFAULT_FREQ = 2500000000"
definition TX_DEFAULT_FREQ :: double where "TX_DEFAULT_FREQ = 2500000000"
definition RX_DEFAULT_GAIN :: double where "RX_DEFAULT_GAIN = 0"
definition TX_DEFAULT_GAIN :: double where "TX_DEFAULT_GAIN = 0"

definition AD9371_PRODUCT_ID :: "32 word" where "AD9371_PRODUCT_ID = 3"
definition ARM_BINARY_SIZE :: nat where "ARM_BINARY_SIZE = 98304"
definition PLL_LOCK_TIMEOUT_MS :: nat where "PLL_LOCK_TIMEOUT_MS = 200"
definition INIT_CAL_TIMEOUT_MS :: "32 word" where "INIT_CAL_TIMEOUT_MS = 10000"

subsection \<open>Unit conversion\<close>

definition convert_rx_gain_to_mykonos :: "double \<Rightarrow> 8 word" where
  "convert_rx_gain_to_mykonos gain = double_to_uint8 (dadd (dmul gain 2) 195)"

definition convert_rx_gain_from_mykonos :: "8 word \<Rightarrow> double" where
  "convert_rx_gain_from_mykonos gain = ddiv (dsub (uint8_to_double gain) 195) 2"

definition convert_tx_gain_to_mykonos :: "double \<Rightarrow> 16 word" where
  "convert_tx_gain_to_mykonos gain = double_to_uint16 (dmul (dsub MAX_TX_GAIN gain) 1000)"

definition convert_tx_gain_from_mykonos :: "16 word \<Rightarrow> double" where
  "convert_tx_gain_from_mykonos gain = dsub MAX_TX_GAIN (ddiv (uint16_to_double gain) 1000)"

subsection \<open>Types of the interface\<close>

text \<open>
  The enumerations are declared in headers of UHD and of the driver; their values are the
  ones this file names.  \<^verbatim>\<open>uhd::direction_t\<close> has a third value besides RX and TX,
  which is why the source ends its switches on the direction with
  \<^verbatim>\<open>MPM_THROW_INVALID_CODE_PATH\<close>.
\<close>

datatype direction_t = RX_DIRECTION | TX_DIRECTION | DX_DIRECTION

datatype chain_t = ONE | TWO

datatype radio_state_t = OFF | ON

datatype multichip_sync_t = FULL | PARTIAL

datatype mykonosRfPllName_t = CLK_PLL | RX_PLL | TX_PLL | SNIFFER_PLL

text \<open>
  Modelled from the spec: the PLL identifiers \<open>CLK_SYNTH\<close>, \<open>RX_SYNTH\<close>, \<open>TX_SYNTH\<close> and
  \<open>SNIFF_SYNTH\<close> are declared in the driver's header, "used both to select which physical
  PLL to tune and as a bitmask to query lock status of one or more PLLs simultaneously":
  one status bit each.  No theorem below depends on which bit.
\<close>

definition CLK_SYNTH :: "8 word" where "CLK_SYNTH = 1"
definition RX_SYNTH :: "8 word" where "RX_SYNTH = 2"
definition TX_SYNTH :: "8 word" where "TX_SYNTH = 4"
definition SNIFF_SYNTH :: "8 word" where "SNIFF_SYNTH = 8"

text \<open>
  \<open>INIT_CALS\<close> is the union of the vendor's bits TX\_BB\_FILTER, ADC\_TUNER,
  TIA\_3DB\_CORNER, DC\_OFFSET and FLASH\_CAL, which the source's comment gives as \<open>0x4F\<close>;
  \<open>TRACKING_CALS\<close> is empty.
\<close>

definition INIT_CALS :: "32 word" where "INIT_CALS = 79"
definition TRACKING_CALS :: "32 word" where "TRACKING_CALS = 0"

text \<open>
  Modelled from the spec: the vendor's two error enumerations are declared in the vendor's
  headers; "success is a specific sentinel value per enumeration", here 0 for both.
\<close>

definition MYKONOS_ERR_OK :: nat where "MYKONOS_ERR_OK = 0"
definition MYKONOS_ERR_GPIO_OK :: nat where "MYKONOS_ERR_GPIO_OK = 0"

text \<open>Every exception the modelled functions throw, one constructor for each throw site.\<close>

datatype error =
    Mykonos_error nat
  | Mykonos_gpio_error nat
  | Arm_binary_not_opened
  | Arm_binary_read_error
  | Multichip_sync_failed "8 word" "8 word"
  | Plls_not_locked_after_tuning
  | Pll_did_not_lock
  | Init_cals_failed
  | Assertion_error
  | Invalid_code_path
  | Out_of_range

subsection \<open>The vendor API and the device state\<close>

text \<open>
  Each call that leaves the class is a value of \<open>ext_call\<close>, with the arguments the
  source passes (the device handle left out).  \<open>Steady_clock_now\<close> is the read of
  \<^verbatim>\<open>std::chrono::steady_clock\<close>.
\<close>

datatype ext_call =
    MYKONOS_getRadioState
  | MYKONOS_radioOn
  | MYKONOS_radioOff
  | MYKONOS_enableMultichipSync "8 word"
  | MYKONOS_initArm
  | MYKONOS_loadArmFromBinary "8 word list" nat
  | MYKONOS_setRfPllFrequency mykonosRfPllName_t "64 word"
  | MYKONOS_getRfPllFrequency mykonosRfPllName_t
  | MYKONOS_checkPllsLockStatus
  | MYKONOS_setRx1GainCtrlPin "8 word" "8 word" nat nat bool
  | MYKONOS_setRx2GainCtrlPin "8 word" "8 word" nat nat bool
  | MYKONOS_setTx1AttenCtrlPin "8 word" nat nat bool "8 word"
  | MYKONOS_setTx2AttenCtrlPin "8 word" nat nat bool
  | MYKONOS_setupGpio
  | MYKONOS_setTx1Attenuation "16 word"
  | MYKONOS_setTx2Attenuation "16 word"
  | MYKONOS_setRx1ManualGain "8 word"
  | MYKONOS_setRx2ManualGain "8 word"
  | MYKONOS_getTx1Attenuation
  | MYKONOS_getTx2Attenuation
  | MYKONOS_getRx1Gain
  | MYKONOS_getRx2Gain
  | MYKONOS_runInitCals "32 word"
  | MYKONOS_waitInitCals "32 word"
  | MYKONOS_enableTrackingCals "32 word"
  | Steady_clock_now

text \<open>
  A reply carries the returned error code and what the call wrote through its output
  pointers (for the clock: the time, in ticks of one nanosecond).
\<close>

record reply =
  err :: nat
  out :: nat
  out2 :: nat

text \<open>
  The vendor library and the chip behind it are a black box: a function that answers a
  call, given all calls made before it.  Every theorem below holds for every such function.
\<close>

type_synonym vendor_api = "ext_call list \<Rightarrow> ext_call \<Rightarrow> reply"

text \<open>
  Modelled from the spec: the gain-pin configuration is declared in the driver's header and
  filled by its constructor.  It holds, "per (direction in RX, TX) x (chain in ONE, TWO):
  increment step (hardware units), decrement step (hardware units), increment pin id,
  decrement pin id, enabled flag"; the steps are the \<^verbatim>\<open>uint8_t\<close> the source casts to.
\<close>

record gain_ctrl_channel =
  enable :: bool
  inc_step :: "8 word"
  dec_step :: "8 word"
  inc_pin :: nat
  dec_pin :: nat

text \<open>
  The members the modelled functions read or write, and the log of external calls.
  \<open>gain_ctrl\<close> is the map \<^verbatim>\<open>gain_ctrl.config\<close>, with its entries for RX and TX and both
  chains, so the lookup \<open>config_at\<close> below throws for the third direction only.
\<close>

record dev_state =
  calls :: "ext_call list"
  gain_ctrl :: "direction_t \<Rightarrow> chain_t \<Rightarrow> gain_ctrl_channel"
  rxPllLoFrequency_Hz :: "64 word"
  txPllLoFrequency_Hz :: "64 word"

text \<open>
  A member function maps the state to its outcome and the state it leaves: \<open>Inr\<close> the
  returned value, \<open>Inl\<close> the exception thrown.  \<open>None\<close> stands for a call that never
  returns, which only the lock-wait loop can produce.
\<close>

type_synonym 'a prog = "dev_state \<Rightarrow> ((error + 'a) \<times> dev_state) option"

definition return :: "'a \<Rightarrow> 'a prog" where
  "return x s = Some (Inr x, s)"

definition throw :: "error \<Rightarrow> 'a prog" where
  "throw e s = Some (Inl e, s)"

definition bind :: "'a prog \<Rightarrow> ('a \<Rightarrow> 'b prog) \<Rightarrow> 'b prog" where
  "bind m f s =
     (case m s of
        None \<Rightarrow> None
      | Some (Inl e, s') \<Rightarrow> Some (Inl e, s')
      | Some (Inr x, s') \<Rightarrow> f x s')"

definition vendor_call :: "vendor_api \<Rightarrow> ext_call \<Rightarrow> dev_state \<Rightarrow> reply \<times> dev_state" where
  "vendor_call api c s = (api (calls s) c, s\<lparr>calls := calls s @ [c]\<rparr>)"

subsection \<open>Helper functions\<close>

definition call_api_function :: "vendor_api \<Rightarrow> ext_call \<Rightarrow> reply prog" where
  "call_api_function api c s =
     (case vendor_call api c s of
        (r, s') \<Rightarrow>
          if err r \<noteq> MYKONOS_ERR_OK then Some (Inl (Mykonos_error (err r)), s')
          else Some (Inr r, s'))"

definition call_gpio_api_function :: "vendor_api \<Rightarrow> ext_call \<Rightarrow> reply prog" where
  "call_gpio_api_function api c s =
     (case vendor_call api c s of
        (r, s') \<Rightarrow>
          if err r \<noteq> MYKONOS_ERR_GPIO_OK then Some (Inl (Mykonos_gpio_error (err r)), s')
          else Some (Inr r, s'))"

definition steady_clock_now :: "vendor_api \<Rightarrow> nat prog" where
  "steady_clock_now api s =
     (case vendor_call api Steady_clock_now s of (r, s') \<Rightarrow> Some (Inr (out r), s'))"

definition start_radio :: "vendor_api \<Rightarrow> unit prog" where
  "start_radio api = bind (call_api_function api MYKONOS_radioOn) (\<lambda>_. return ())"

definition stop_radio :: "vendor_api \<Rightarrow> unit prog" where
  "stop_radio api = bind (call_api_function api MYKONOS_radioOff) (\<lambda>_. return ())"

definition move_to_config_state :: "vendor_api \<Rightarrow> radio_state_t prog" where
  "move_to_config_state api =
     bind (call_api_function api MYKONOS_getRadioState) (\<lambda>r.
       let status = (of_nat (out r) :: 32 word)
       in if status AND 3 = 3
          then bind (stop_radio api) (\<lambda>_. return ON)
          else return OFF)"

definition restore_from_config_state :: "vendor_api \<Rightarrow> radio_state_t \<Rightarrow> unit prog" where
  "restore_from_config_state api state =
     (if state = ON then start_radio api else return ())"

subsection \<open>The ARM firmware file\<close>

text \<open>
  What \<^verbatim>\<open>std::ifstream\<close> shows of a file: a path that cannot be opened has no entry;
  an opened file has its bytes, and \<open>read_fault\<close> says that reading it hits an
  unrecoverable stream error (\<^verbatim>\<open>badbit\<close>).  \<^verbatim>\<open>read(buf, n)\<close> stores the bytes it can
  extract; when the file ends before \<open>n\<close> bytes it sets \<^verbatim>\<open>eofbit\<close> and \<^verbatim>\<open>failbit\<close>,
  which \<^verbatim>\<open>bad()\<close> does not report.
\<close>

record firmware_file =
  content :: "8 word list"
  read_fault :: bool

type_synonym filesystem = "string \<Rightarrow> firmware_file option"

definition get_arm_binary_path :: string where
  "get_arm_binary_path = ''/lib/firmware/Mykonos_M3.bin''"

definition get_arm_binary :: "filesystem \<Rightarrow> (8 word list) prog" where
  "get_arm_binary fs =
     (case fs get_arm_binary_path of
        None \<Rightarrow> throw Arm_binary_not_opened
      | Some f \<Rightarrow>
          (let binary = replicate ARM_BINARY_SIZE 0;
               n = min ARM_BINARY_SIZE (length (content f));
               binary = take n (content f) @ drop n binary
           in if read_fault f then throw Arm_binary_read_error
              else return binary))"

subsection \<open>Status\<close>

definition get_multichip_sync_status :: "vendor_api \<Rightarrow> (8 word) prog" where
  "get_multichip_sync_status api =
     bind (call_api_function api (MYKONOS_enableMultichipSync 0)) (\<lambda>r.
       return (of_nat (out r)))"

definition verify_multichip_sync_status :: "vendor_api \<Rightarrow> multichip_sync_t \<Rightarrow> unit prog" where
  "verify_multichip_sync_status api mcs =
     (let status_expected = (if mcs = FULL then 11 else 10 :: 8 word);
          status_mask = status_expected
      in bind (get_multichip_sync_status api) (\<lambda>mcs_status.
           if mcs_status AND status_mask \<noteq> status_expected
           then throw (Multichip_sync_failed mcs_status status_expected)
           else return ()))"

text \<open>
  \<open>get_pll_lock_status\<close> with \<^verbatim>\<open>wait_for_lock = false\<close>, which is also what the calls
  \<^verbatim>\<open>get_pll_lock_status(pll)\<close> inside the waiting branch run: the parameter's default,
  declared in the header, is false (a "single check, no retry-wait").
\<close>

definition get_pll_lock_status_single :: "vendor_api \<Rightarrow> 8 word \<Rightarrow> bool prog" where
  "get_pll_lock_status_single api pll =
     bind (call_api_function api MYKONOS_checkPllsLockStatus) (\<lambda>r.
       let pll_status = (of_nat (out r) :: 8 word)
       in return (pll_status AND pll = pll))"

text \<open>
  The loop \<^verbatim>\<open>while (not locked and lock_time > now())\<close>.  Nothing in the loop bounds
  the number of rounds but the clock, so the loop is a partial function.
\<close>

partial_function (option) lock_wait_loop ::
  "vendor_api \<Rightarrow> 8 word \<Rightarrow> nat \<Rightarrow> bool \<Rightarrow> dev_state \<Rightarrow> ((error + bool) \<times> dev_state) option"
where
  "lock_wait_loop api pll lock_time locked s =
     (if locked then Some (Inr locked, s)
      else
        (case vendor_call api Steady_clock_now s of
           (r, s1) \<Rightarrow>
             if lock_time > out r then
               (case get_pll_lock_status_single api pll s1 of
                  None \<Rightarrow> None
                | Some (Inl e, s2) \<Rightarrow> Some (Inl e, s2)
                | Some (Inr l, s2) \<Rightarrow> lock_wait_loop api pll lock_time l s2)
             else Some (Inr locked, s1)))"

text \<open>
  The clock counts nanoseconds; \<^verbatim>\<open>now() + milliseconds(PLL_LOCK_TIMEOUT_MS)\<close> is a time
  in the clock's ticks.
\<close>

definition steady_clock_ticks_per_ms :: nat where
  "steady_clock_ticks_per_ms = 1000000"

definition get_pll_lock_status :: "vendor_api \<Rightarrow> 8 word \<Rightarrow> bool \<Rightarrow> bool prog" where
  "get_pll_lock_status api pll wait_for_lock =
     bind (call_api_function api MYKONOS_checkPllsLockStatus) (\<lambda>r.
       let pll_status = (of_nat (out r) :: 8 word)
       in if \<not> wait_for_lock then return (pll_status AND pll = pll)
          else
            bind (steady_clock_now api) (\<lambda>now.
              let lock_time = now + PLL_LOCK_TIMEOUT_MS * steady_clock_ticks_per_ms
              in bind (lock_wait_loop api pll lock_time False) (\<lambda>locked.
                   if \<not> locked then get_pll_lock_status_single api pll
                   else return locked)))"

subsection \<open>Gain pins\<close>

definition config_at :: "direction_t \<Rightarrow> chain_t \<Rightarrow> gain_ctrl_channel prog" where
  "config_at direction chain s =
     (if direction = DX_DIRECTION then Some (Inl Out_of_range, s)
      else Some (Inr (gain_ctrl s direction chain), s))"

text \<open>The store with one channel's entry changed.\<close>

definition store_channel ::
  "direction_t \<Rightarrow> chain_t \<Rightarrow> (gain_ctrl_channel \<Rightarrow> gain_ctrl_channel) \<Rightarrow> dev_state \<Rightarrow> dev_state" where
  "store_channel direction chain f s =
     s\<lparr>gain_ctrl := (gain_ctrl s)
         (direction := (gain_ctrl s direction)(chain := f (gain_ctrl s direction chain)))\<rparr>"

definition config_update ::
  "direction_t \<Rightarrow> chain_t \<Rightarrow> (gain_ctrl_channel \<Rightarrow> gain_ctrl_channel) \<Rightarrow> unit prog" where
  "config_update direction chain f s =
     (if direction = DX_DIRECTION then Some (Inl Out_of_range, s)
      else Some (Inr (), store_channel direction chain f s))"

definition apply_gain_pins :: "vendor_api \<Rightarrow> direction_t \<Rightarrow> chain_t \<Rightarrow> unit prog" where
  "apply_gain_pins api direction chain =
     bind (config_at direction chain) (\<lambda>chan.
     bind (if direction = TX_DIRECTION \<and> \<not> (inc_step chan = dec_step chan)
           then throw Assertion_error else return ()) (\<lambda>_.
     bind (move_to_config_state api) (\<lambda>state.
     bind (case direction of
             RX_DIRECTION \<Rightarrow>
               call_gpio_api_function api
                 ((case chain of
                     ONE \<Rightarrow> MYKONOS_setRx1GainCtrlPin
                   | TWO \<Rightarrow> MYKONOS_setRx2GainCtrlPin)
                  (inc_step chan) (dec_step chan) (inc_pin chan) (dec_pin chan) (enable chan))
           | TX_DIRECTION \<Rightarrow>
               call_gpio_api_function api
                 (case chain of
                    ONE \<Rightarrow> MYKONOS_setTx1AttenCtrlPin
                             (inc_step chan) (inc_pin chan) (dec_pin chan) (enable chan) 0
                  | TWO \<Rightarrow> MYKONOS_setTx2AttenCtrlPin
                             (inc_step chan) (inc_pin chan) (dec_pin chan) (enable chan))
           | DX_DIRECTION \<Rightarrow> return \<lparr>err = 0, out = 0, out2 = 0\<rparr>) (\<lambda>_.
     restore_from_config_state api state))))"

definition set_gain_pin_step_sizes ::
  "vendor_api \<Rightarrow> direction_t \<Rightarrow> chain_t \<Rightarrow> double \<Rightarrow> double \<Rightarrow> unit prog" where
  "set_gain_pin_step_sizes api direction chain inc_step_arg dec_step_arg =
     bind (if direction = RX_DIRECTION then
             bind (config_update direction chain
                     (\<lambda>c. c\<lparr>inc_step := double_to_uint8 (ddiv inc_step_arg (1 / 2))\<rparr>)) (\<lambda>_.
             config_update direction chain
                     (\<lambda>c. c\<lparr>dec_step := double_to_uint8 (ddiv dec_step_arg (1 / 2))\<rparr>))
           else if direction = TX_DIRECTION then
             bind (config_update direction chain
                     (\<lambda>c. c\<lparr>dec_step := double_to_uint8 (ddiv inc_step_arg (to_double (5 / 100)))\<rparr>)) (\<lambda>_.
             config_update direction chain
                     (\<lambda>c. c\<lparr>inc_step := double_to_uint8 (ddiv dec_step_arg (to_double (5 / 100)))\<rparr>))
           else throw Invalid_code_path) (\<lambda>_.
     apply_gain_pins api direction chain)"

definition set_enable_gain_pins ::
  "vendor_api \<Rightarrow> direction_t \<Rightarrow> chain_t \<Rightarrow> bool \<Rightarrow> unit prog" where
  "set_enable_gain_pins api direction chain enable_arg =
     bind (config_update direction chain (\<lambda>c. c\<lparr>enable := enable_arg\<rparr>)) (\<lambda>_.
     apply_gain_pins api direction chain)"

subsection \<open>Tuning and gain\<close>

definition get_freq :: "vendor_api \<Rightarrow> direction_t \<Rightarrow> double prog" where
  "get_freq api direction =
     (case direction of
        TX_DIRECTION \<Rightarrow>
          bind (call_api_function api (MYKONOS_getRfPllFrequency TX_PLL)) (\<lambda>r.
            return (uint64_to_double (of_nat (out r))))
      | RX_DIRECTION \<Rightarrow>
          bind (call_api_function api (MYKONOS_getRfPllFrequency RX_PLL)) (\<lambda>r.
            return (uint64_to_double (of_nat (out r))))
      | DX_DIRECTION \<Rightarrow> throw Invalid_code_path)"

definition set_config_value :: "direction_t \<Rightarrow> 64 word \<Rightarrow> unit prog" where
  "set_config_value direction v s =
     (case direction of
        TX_DIRECTION \<Rightarrow> Some (Inr (), s\<lparr>txPllLoFrequency_Hz := v\<rparr>)
      | RX_DIRECTION \<Rightarrow> Some (Inr (), s\<lparr>rxPllLoFrequency_Hz := v\<rparr>)
      | DX_DIRECTION \<Rightarrow> Some (Inl Invalid_code_path, s))"

definition tune :: "vendor_api \<Rightarrow> direction_t \<Rightarrow> double \<Rightarrow> bool \<Rightarrow> double prog" where
  "tune api direction val wait_for_lock =
     (let integer_value = double_to_uint64 val
      in case direction of
           DX_DIRECTION \<Rightarrow> throw Invalid_code_path
         | _ \<Rightarrow>
           (let pll = (if direction = TX_DIRECTION then TX_PLL else RX_PLL);
                locked_pll = (if direction = TX_DIRECTION then TX_SYNTH else RX_SYNTH)
            in bind (move_to_config_state api) (\<lambda>state.
               bind (set_config_value direction integer_value) (\<lambda>_.
               bind (call_api_function api (MYKONOS_setRfPllFrequency pll integer_value)) (\<lambda>_.
               bind (if wait_for_lock then
                       bind (get_pll_lock_status api locked_pll True) (\<lambda>locked.
                         if \<not> locked then throw Pll_did_not_lock else return ())
                     else return ()) (\<lambda>_.
               bind (restore_from_config_state api state) (\<lambda>_.
               get_freq api direction)))))))"

definition set_gain :: "vendor_api \<Rightarrow> direction_t \<Rightarrow> chain_t \<Rightarrow> double \<Rightarrow> double prog" where
  "set_gain api direction chain val =
     bind (move_to_config_state api) (\<lambda>state.
     bind (case direction of
             TX_DIRECTION \<Rightarrow>
               (let attenuation = convert_tx_gain_to_mykonos val;
                    coerced_value = uint16_to_double attenuation
                in bind (call_api_function api
                           (case chain of
                              ONE \<Rightarrow> MYKONOS_setTx1Attenuation attenuation
                            | TWO \<Rightarrow> MYKONOS_setTx2Attenuation attenuation)) (\<lambda>_.
                   return coerced_value))
           | RX_DIRECTION \<Rightarrow>
               (let gain = convert_rx_gain_to_mykonos val;
                    coerced_value = uint8_to_double gain
                in bind (call_api_function api
                           (case chain of
                              ONE \<Rightarrow> MYKONOS_setRx1ManualGain gain
                            | TWO \<Rightarrow> MYKONOS_setRx2ManualGain gain)) (\<lambda>_.
                   return coerced_value))
           | DX_DIRECTION \<Rightarrow> throw Invalid_code_path) (\<lambda>coerced_value.
     bind (restore_from_config_state api state) (\<lambda>_.
     return coerced_value)))"

definition get_gain :: "vendor_api \<Rightarrow> direction_t \<Rightarrow> chain_t \<Rightarrow> double prog" where
  "get_gain api direction chain =
     (case direction of
        TX_DIRECTION \<Rightarrow>
          bind (call_api_function api
                  (case chain of
                     ONE \<Rightarrow> MYKONOS_getTx1Attenuation
                   | TWO \<Rightarrow> MYKONOS_getTx2Attenuation)) (\<lambda>r.
            return (convert_tx_gain_from_mykonos (of_nat (out r))))
      | RX_DIRECTION \<Rightarrow>
          bind (call_api_function api
                  (case chain of
                     ONE \<Rightarrow> MYKONOS_getRx1Gain
                   | TWO \<Rightarrow> MYKONOS_getRx2Gain)) (\<lambda>r.
            return (convert_rx_gain_from_mykonos (of_nat (out r))))
      | DX_DIRECTION \<Rightarrow> throw Invalid_code_path)"

subsection \<open>Initialization\<close>

definition initialize_rf :: "vendor_api \<Rightarrow> unit prog" where
  "initialize_rf api =
     bind (tune api RX_DIRECTION RX_DEFAULT_FREQ False) (\<lambda>_.
     bind (tune api TX_DIRECTION TX_DEFAULT_FREQ False) (\<lambda>_.
     bind (get_pll_lock_status api (CLK_SYNTH OR RX_SYNTH OR TX_SYNTH OR SNIFF_SYNTH) True) (\<lambda>locked.
     bind (if \<not> locked then throw Plls_not_locked_after_tuning else return ()) (\<lambda>_.
     bind (apply_gain_pins api RX_DIRECTION ONE) (\<lambda>_.
     bind (apply_gain_pins api RX_DIRECTION TWO) (\<lambda>_.
     bind (apply_gain_pins api TX_DIRECTION ONE) (\<lambda>_.
     bind (apply_gain_pins api TX_DIRECTION TWO) (\<lambda>_.
     bind (call_gpio_api_function api MYKONOS_setupGpio) (\<lambda>_.
     bind (set_gain api RX_DIRECTION ONE RX_DEFAULT_GAIN) (\<lambda>_.
     bind (set_gain api RX_DIRECTION TWO RX_DEFAULT_GAIN) (\<lambda>_.
     bind (set_gain api TX_DIRECTION ONE TX_DEFAULT_GAIN) (\<lambda>_.
     bind (set_gain api TX_DIRECTION TWO TX_DEFAULT_GAIN) (\<lambda>_.
     bind (call_api_function api (MYKONOS_runInitCals INIT_CALS)) (\<lambda>_.
     bind (call_api_function api (MYKONOS_waitInitCals INIT_CAL_TIMEOUT_MS)) (\<lambda>r.
       let errorFlag = (of_nat (out r) :: 8 word);
           errorCode = (of_nat (out2 r) :: 8 word)
       in bind (if errorFlag \<noteq> 0 \<or> errorCode \<noteq> 0 then throw Init_cals_failed
                else return ()) (\<lambda>_.
          bind (call_api_function api (MYKONOS_enableTrackingCals TRACKING_CALS)) (\<lambda>_.
          return ())))))))))))))))))"

definition finish_initialization :: "filesystem \<Rightarrow> vendor_api \<Rightarrow> unit prog" where
  "finish_initialization fs api =
     bind (verify_multichip_sync_status api PARTIAL) (\<lambda>_.
     bind (call_api_function api MYKONOS_initArm) (\<lambda>_.
     bind (get_arm_binary fs) (\<lambda>binary.
     bind (call_api_function api (MYKONOS_loadArmFromBinary binary (length binary))) (\<lambda>_.
     initialize_rf api))))"

subsection \<open>Concrete devices and states\<close>

text \<open>
  Inputs for the concrete runs below: a state in which no call has been made and every
  channel has step 1 and is disabled, and vendor APIs that answer every call the same way.
\<close>

definition state0 :: dev_state where
  "state0 =
     \<lparr>calls = [],
      gain_ctrl = (\<lambda>_ _. \<lparr>enable = False, inc_step = 1, dec_step = 1, inc_pin = 0, dec_pin = 1\<rparr>),
      rxPllLoFrequency_Hz = 0,
      txPllLoFrequency_Hz = 0\<rparr>"

text \<open>Every call succeeds; the radio status reads RX on and TX on.\<close>

definition api_radio_on :: vendor_api where
  "api_radio_on h c = \<lparr>err = 0, out = 3, out2 = 0\<rparr>"

text \<open>Every call succeeds but the TX1 attenuation pin setter.\<close>

definition api_tx1_pin_fails :: vendor_api where
  "api_tx1_pin_fails h c =
     (case c of
        MYKONOS_setTx1AttenCtrlPin _ _ _ _ _ \<Rightarrow> \<lparr>err = 1, out = 0, out2 = 0\<rparr>
      | _ \<Rightarrow> \<lparr>err = 0, out = 0, out2 = 0\<rparr>)"

text \<open>
  Every call succeeds and the PLLs never report a lock; the clock advances by 70 ms with
  every external call.
\<close>

definition api_never_locks :: vendor_api where
  "api_never_locks h c =
     (case c of
        Steady_clock_now \<Rightarrow> \<lparr>err = 0, out = 70000000 * length h, out2 = 0\<rparr>
      | _ \<Rightarrow> \<lparr>err = 0, out = 0, out2 = 0\<rparr>)"

text \<open>
  Every call succeeds: the radio is off, the multichip sync status is \<open>0x0A\<close>, every
  lock-status bit is set, the PLL frequency reads 2.5 GHz and the calibrations report no error.
\<close>

definition api_all_ok :: vendor_api where
  "api_all_ok h c =
     (case c of
        MYKONOS_enableMultichipSync _ \<Rightarrow> \<lparr>err = 0, out = 10, out2 = 0\<rparr>
      | MYKONOS_checkPllsLockStatus \<Rightarrow> \<lparr>err = 0, out = 255, out2 = 0\<rparr>
      | MYKONOS_getRfPllFrequency _ \<Rightarrow> \<lparr>err = 0, out = 2500000000, out2 = 0\<rparr>
      | _ \<Rightarrow> \<lparr>err = 0, out = 0, out2 = 0\<rparr>)"

text \<open>A file system whose firmware file holds three bytes and reads without a stream error.\<close>

definition fs_short_firmware :: filesystem where
  "fs_short_firmware path =
     (if path = get_arm_binary_path then Some \<lparr>content = [1, 2, 3], read_fault = False\<rparr>
      else None)"

section \<open>Properties\<close>

subsection \<open>Rounding to \<^verbatim>\<open>double\<close>\<close>

lemma pow2_power_int: "pow2 e = power_int 2 e"
  by (simp add: pow2_def power_int_def field_simps)

lemma pow2_pos: "0 < pow2 e"
  by (simp add: pow2_power_int)

lemma pow2_add: "pow2 (a + b) = pow2 a * pow2 b"
  by (simp add: pow2_power_int power_int_add)

lemma pow2_nat: "pow2 (int n) = 2 ^ n"
  by (simp add: pow2_def)

lemma pow2_less_iff: "pow2 a < pow2 b \<longleftrightarrow> a < b"
proof
  assume "a < b"
  then show "pow2 a < pow2 b"
    by (simp add: pow2_power_int power_int_strict_increasing)
next
  assume l: "pow2 a < pow2 b"
  show "a < b"
  proof (rule ccontr)
    assume "\<not> a < b"
    then have "b \<le> a" by simp
    then have "pow2 b \<le> pow2 a"
      by (simp add: pow2_power_int power_int_increasing)
    with l show False by simp
  qed
qed

lemma pow2_inverse: "pow2 (- e) = 1 / pow2 e"
  by (simp add: pow2_power_int power_int_minus field_simps)

lemma bitlen_rat_bounds:
  assumes "1 \<le> (y::rat)"
  shows "pow2 (bitlen \<lfloor>y\<rfloor> - 1) \<le> y \<and> y < pow2 (bitlen \<lfloor>y\<rfloor>)"
proof -
  let ?n = "\<lfloor>y\<rfloor>"
  have n: "0 < ?n" using assms by simp
  have b: "2 ^ nat (bitlen ?n - 1) \<le> ?n" "?n < 2 ^ nat (bitlen ?n)"
    using bitlen_bounds [OF n] by auto
  have b1: "1 \<le> bitlen ?n" using n by (simp add: bitlen_alt_def)
  have "pow2 (bitlen ?n - 1) = of_int (2 ^ nat (bitlen ?n - 1))"
    using b1 by (simp add: pow2_def)
  also have "\<dots> \<le> of_int ?n" using b(1) by (simp only: of_int_le_iff)
  also have "\<dots> \<le> y" by simp
  finally have lo: "pow2 (bitlen ?n - 1) \<le> y" .
  have "?n + 1 \<le> 2 ^ nat (bitlen ?n)" using b(2) by simp
  then have "of_int (?n + 1) \<le> (of_int (2 ^ nat (bitlen ?n)) :: rat)"
    by (simp only: of_int_le_iff)
  moreover have "y < of_int (?n + 1)" by linarith
  ultimately have "y < of_int (2 ^ nat (bitlen ?n))" by linarith
  moreover have "pow2 (bitlen ?n) = of_int (2 ^ nat (bitlen ?n))"
    using b1 by (simp add: pow2_def)
  ultimately show ?thesis using lo by simp
qed

text \<open>\<open>ilog2\<close> is the binary exponent, and the only one.\<close>

lemma ilog2_bounds:
  assumes "x \<noteq> 0"
  shows "pow2 (ilog2 x) \<le> \<bar>x\<bar> \<and> \<bar>x\<bar> < pow2 (ilog2 x + 1)"
proof (cases "1 \<le> \<bar>x\<bar>")
  case True
  then show ?thesis
    using bitlen_rat_bounds [OF True] by (simp add: ilog2_def)
next
  case False
  define y where "y = 1 / \<bar>x\<bar>"
  define k where "k = bitlen \<lfloor>y\<rfloor> - 1"
  have xpos: "0 < \<bar>x\<bar>" using assms by simp
  have y1: "1 \<le> y" using False xpos by (simp add: y_def)
  have yb: "pow2 k \<le> y" "y < pow2 (k + 1)"
    using bitlen_rat_bounds [OF y1] by (simp_all add: k_def)
  have xy: "\<bar>x\<bar> = 1 / y" by (simp add: y_def)
  have inv: "pow2 (- k) = 1 / pow2 k" "pow2 (- k - 1) = 1 / pow2 (k + 1)"
    using pow2_inverse [of k] pow2_inverse [of "k + 1"] by simp_all
  have up: "\<bar>x\<bar> \<le> pow2 (- k)"
    unfolding xy inv using yb(1) pow2_pos [of k] y1 by (simp add: field_simps)
  have lo: "pow2 (- k - 1) < \<bar>x\<bar>"
    unfolding xy inv using yb(2) pow2_pos [of "k + 1"] y1 by (simp add: field_simps)
  have step: "pow2 (- k) < pow2 (- k + 1)" by (simp add: pow2_less_iff)
  have il: "ilog2 x = (if \<bar>x\<bar> = pow2 (- k) then - k else - k - 1)"
    using False by (simp add: ilog2_def Let_def k_def y_def)
  show ?thesis
  proof (cases "\<bar>x\<bar> = pow2 (- k)")
    case True
    then show ?thesis using il step by simp
  next
    case False
    then have "\<bar>x\<bar> < pow2 (- k)" using up by simp
    then show ?thesis using il False lo by simp
  qed
qed

lemma ilog2_unique:
  assumes "pow2 e \<le> \<bar>x\<bar>" "\<bar>x\<bar> < pow2 (e + 1)"
  shows "ilog2 x = e"
proof -
  have x0: "x \<noteq> 0" using assms(1) pow2_pos [of e] by auto
  note b = ilog2_bounds [OF x0]
  have "pow2 e < pow2 (ilog2 x + 1)" using assms(1) b by linarith
  then have 1: "e < ilog2 x + 1" by (simp add: pow2_less_iff)
  have "pow2 (ilog2 x) < pow2 (e + 1)" using assms(2) b by linarith
  then have 2: "ilog2 x < e + 1" by (simp add: pow2_less_iff)
  from 1 2 show ?thesis by simp
qed

lemma round_half_even_of_int: "round_half_even (of_int n) = n"
  by (simp add: round_half_even_def)

lemma round_half_even_bounds: "\<lfloor>q\<rfloor> \<le> round_half_even q \<and> round_half_even q \<le> \<lceil>q\<rceil>"
proof -
  have "q - of_int \<lfloor>q\<rfloor> \<noteq> 0 \<Longrightarrow> \<lfloor>q\<rfloor> + 1 \<le> \<lceil>q\<rceil>"
    by (metis ceiling_altdef eq_iff_diff_eq_0 order_refl)
  then show ?thesis
    by (auto simp: round_half_even_def Let_def)
qed

lemma to_double_fixed_exp:
  assumes "pow2 e \<le> \<bar>x\<bar>" "\<bar>x\<bar> < pow2 (e + 1)"
  shows "to_double x = of_int (round_half_even (x / pow2 (e - 52))) * pow2 (e - 52)"
proof -
  have "x \<noteq> 0" using assms(1) pow2_pos [of e] by auto
  then show ?thesis
    using ilog2_unique [OF assms] by (simp add: to_double_def Let_def)
qed

text \<open>A value with a significand below \<open>2 ^ 53\<close> is a \<^verbatim>\<open>double\<close>: rounding keeps it.\<close>

lemma to_double_exact:
  assumes "\<bar>m\<bar> < 2 ^ 53"
  shows "to_double (of_int m * pow2 j) = of_int m * pow2 j"
proof (cases "m = 0")
  case True
  then show ?thesis by (simp add: to_double_def)
next
  case False
  define x where "x = (of_int m :: rat) * pow2 j"
  have x0: "x \<noteq> 0" using False pow2_pos [of j] by (simp add: x_def)
  define e where "e = ilog2 x"
  have "pow2 e \<le> \<bar>x\<bar>" using ilog2_bounds [OF x0] by (simp add: e_def)
  also have "\<bar>x\<bar> = of_int \<bar>m\<bar> * pow2 j"
    using pow2_pos [of j] by (simp add: x_def abs_mult)
  also have "\<dots> < of_int (2 ^ 53) * pow2 j"
    using assms pow2_pos [of j] by (simp only: mult_less_cancel_right_pos of_int_less_iff)
  also have "\<dots> = pow2 (53 + j)"
    using pow2_add [of 53 j] pow2_nat [of 53] by simp
  finally have "e < 53 + j" by (simp add: pow2_less_iff)
  then have d: "0 \<le> j - (e - 52)" by simp
  have "pow2 j = pow2 ((j - (e - 52)) + (e - 52))" by simp
  also have "\<dots> = pow2 (j - (e - 52)) * pow2 (e - 52)" by (rule pow2_add)
  finally have pj: "pow2 j = of_int (2 ^ nat (j - (e - 52))) * pow2 (e - 52)"
    using d by (simp add: pow2_def)
  have "x / pow2 (e - 52) = of_int (m * 2 ^ nat (j - (e - 52)))"
    using pow2_pos [of "e - 52"] by (simp add: x_def pj)
  then have "round_half_even (x / pow2 (e - 52)) = m * 2 ^ nat (j - (e - 52))"
    by (simp only: round_half_even_of_int)
  then have "to_double x = of_int (m * 2 ^ nat (j - (e - 52))) * pow2 (e - 52)"
    using x0 by (simp add: to_double_def Let_def e_def)
  also have "\<dots> = x" by (simp add: x_def pj)
  finally show ?thesis by (simp add: x_def)
qed

lemma to_double_of_int:
  "\<bar>m\<bar> < 2 ^ 53 \<Longrightarrow> to_double (of_int m) = of_int m"
  using to_double_exact [of m 0] by (simp add: pow2_def)

lemma to_double_half_int:
  "\<bar>m\<bar> < 2 ^ 53 \<Longrightarrow> to_double (of_int m / 2) = of_int m / 2"
  using to_double_exact [of m "- 1"] by (simp add: pow2_def)

text \<open>Within one binade, rounding does not cross a value of that binade's grid.\<close>

lemma to_double_between:
  assumes e: "pow2 e \<le> \<bar>x\<bar>" "\<bar>x\<bar> < pow2 (e + 1)"
    and lo: "of_int lo * pow2 (e - 52) \<le> x"
    and hi: "x \<le> of_int hi * pow2 (e - 52)"
  shows "of_int lo * pow2 (e - 52) \<le> to_double x \<and> to_double x \<le> of_int hi * pow2 (e - 52)"
proof -
  let ?u = "pow2 (e - 52)"
  have u: "0 < ?u" by (rule pow2_pos)
  have "of_int lo \<le> x / ?u" using lo u by (simp add: field_simps)
  then have "lo \<le> \<lfloor>x / ?u\<rfloor>" by (simp add: le_floor_iff)
  then have 1: "lo \<le> round_half_even (x / ?u)"
    using round_half_even_bounds [of "x / ?u"] by linarith
  have "x / ?u \<le> of_int hi" using hi u by (simp add: field_simps)
  then have "\<lceil>x / ?u\<rceil> \<le> hi" by (simp add: ceiling_le_iff)
  then have 2: "round_half_even (x / ?u) \<le> hi"
    using round_half_even_bounds [of "x / ?u"] by linarith
  have "(of_int lo :: rat) \<le> of_int (round_half_even (x / ?u))"
       "(of_int (round_half_even (x / ?u)) :: rat) \<le> of_int hi"
    using 1 2 by (simp_all only: of_int_le_iff)
  then show ?thesis
    unfolding to_double_fixed_exp [OF e] using u by (simp add: mult_le_cancel_right)
qed

lemma is_double_repr:
  assumes "is_double x"
  shows "\<exists>m j. \<bar>m\<bar> < 2 ^ 53 \<and> x = of_int m * pow2 j"
proof (cases "x = 0")
  case True
  then show ?thesis by (intro exI [of _ 0]) simp
next
  case False
  define e where "e = ilog2 x"
  let ?u = "pow2 (e - 52)"
  have u: "0 < ?u" by (rule pow2_pos)
  define n where "n = round_half_even (x / ?u)"
  have xn: "x = of_int n * ?u"
    using assms False by (simp add: is_double_def to_double_def Let_def e_def n_def)
  have b: "pow2 e \<le> \<bar>x\<bar>" "\<bar>x\<bar> < pow2 (e + 1)"
    using ilog2_bounds [OF False] by (simp_all add: e_def)
  have "e + 1 = 53 + (e - 52)" by simp
  then have "pow2 (e + 1) = pow2 (53 + (e - 52))" by (rule arg_cong)
  also have "\<dots> = pow2 53 * ?u" by (rule pow2_add)
  also have "\<dots> = of_int (2 ^ 53) * ?u" using pow2_nat [of 53] by simp
  finally have p: "pow2 (e + 1) = of_int (2 ^ 53) * ?u" .
  have "\<bar>x\<bar> = of_int \<bar>n\<bar> * ?u" using u by (simp add: xn abs_mult)
  then have "of_int \<bar>n\<bar> * ?u < of_int (2 ^ 53) * ?u" using b(2) p by simp
  then have "\<bar>n\<bar> < 2 ^ 53"
    using u by (simp only: mult_less_cancel_right_pos of_int_less_iff)
  then show ?thesis using xn by blast
qed

lemma is_double_twice:
  assumes "is_double x"
  shows "to_double (x * 2) = x * 2"
proof -
  from is_double_repr [OF assms] obtain m j
    where m: "\<bar>m\<bar> < 2 ^ 53" and x: "x = of_int m * pow2 j" by blast
  have "pow2 (j + 1) = pow2 j * 2" using pow2_add [of j 1] by (simp add: pow2_def)
  then have "x * 2 = of_int m * pow2 (j + 1)" by (simp add: x)
  then show ?thesis using to_double_exact [OF m, of "j + 1"] by simp
qed

lemma to_double_195_255:
  assumes "195 \<le> x" "x \<le> 255"
  shows "195 \<le> to_double x \<and> to_double x \<le> 255"
proof -
  have p7: "pow2 7 = 128" "pow2 8 = 256" "pow2 (- 45) = 1 / 2 ^ 45"
    by (simp_all add: pow2_def)
  show ?thesis
    using to_double_between [of 7 x "195 * 2 ^ 45" "255 * 2 ^ 45"] assms
    by (simp add: p7)
qed

lemma to_double_of_nat:
  "n < 2 ^ 53 \<Longrightarrow> to_double (of_nat n) = of_nat n"
  using to_double_of_int [of "int n"] by simp

lemma to_double_half_nat:
  "n < 2 ^ 53 \<Longrightarrow> to_double (of_nat n / 2) = of_nat n / 2"
  using to_double_half_int [of "int n"] by simp

lemma trunc_toward_zero_of_nat: "trunc_toward_zero (of_nat n) = int n"
  by (simp add: trunc_toward_zero_def)

lemma rx_code_of_half_steps:
  assumes "k \<le> 60"
  shows "convert_rx_gain_to_mykonos (of_nat k / 2) = of_nat (k + 195)"
proof -
  have 1: "dmul (of_nat k / 2) 2 = of_nat k"
    using assms to_double_of_nat [of k] by (simp add: dmul_def)
  have "dadd (of_nat k) 195 = to_double (of_nat (k + 195))"
    by (simp add: dadd_def)
  also have "\<dots> = of_nat (k + 195)"
    using assms by (intro to_double_of_nat) simp
  finally have 2: "dadd (of_nat k) 195 = of_nat (k + 195)" .
  show ?thesis
    unfolding convert_rx_gain_to_mykonos_def 1 2 double_to_uint8_def trunc_toward_zero_of_nat
    by simp
qed

lemma rx_gain_of_code:
  assumes "k \<le> 60"
  shows "convert_rx_gain_from_mykonos (of_nat (k + 195)) = of_nat k / 2"
proof -
  have "unat (of_nat (k + 195) :: 8 word) = k + 195"
    using assms by (simp only: unat_of_nat) simp
  then have 0: "uint8_to_double (of_nat (k + 195)) = of_nat (k + 195)"
    by (simp only: uint8_to_double_def)
  have "dsub (of_nat (k + 195)) 195 = to_double (of_nat k)"
    by (simp add: dsub_def)
  also have "\<dots> = of_nat k"
    using assms by (intro to_double_of_nat) simp
  finally have 1: "dsub (of_nat (k + 195)) 195 = of_nat k" .
  have 2: "ddiv (of_nat k) 2 = of_nat k / 2"
    unfolding ddiv_def using assms by (intro to_double_half_nat) simp
  show ?thesis
    unfolding convert_rx_gain_from_mykonos_def 0 1 2 by (rule refl)
qed

subsection \<open>RX gain: encoding then decoding\<close>

text \<open>
  C5.  For every gain in \<open>[0, 30]\<close> that is a multiple of \<open>0.5\<close>, decoding the encoded RX
  gain returns the gain exactly.
\<close>

theorem rx_gain_round_trip:
  assumes "0 \<le> g" "g \<le> 30" "of_int \<lfloor>g * 2\<rfloor> = g * 2"
  shows "convert_rx_gain_from_mykonos (convert_rx_gain_to_mykonos g) = g"
proof -
  define k where "k = nat \<lfloor>g * 2\<rfloor>"
  have "0 \<le> \<lfloor>g * 2\<rfloor>" using assms(1) by simp
  then have "of_nat k = g * 2" using assms(3) by (simp add: k_def)
  then have g: "g = of_nat k / 2" by simp
  have "g * 2 \<le> 60" using assms(2) by simp
  then have "\<lfloor>g * 2\<rfloor> \<le> 60" by linarith
  then have k: "k \<le> 60" unfolding k_def by linarith
  show ?thesis
    unfolding g by (simp only: rx_code_of_half_steps [OF k] rx_gain_of_code [OF k])
qed

theorem rx_gain_round_trip_witness:
  "(0::rat) \<le> 25 / 2 \<and> (25 / 2 :: rat) \<le> 30 \<and> of_int \<lfloor>(25 / 2 :: rat) * 2\<rfloor> = (25 / 2 :: rat) * 2 \<and>
   convert_rx_gain_from_mykonos (convert_rx_gain_to_mykonos (25 / 2)) = 25 / 2"
  using rx_gain_round_trip [of "25 / 2"] by simp

subsection \<open>RX gain encoder: truncation\<close>

text \<open>
  C3, as stated, says that the RX gain encoder rounds to nearest, so that \<open>0.3\<close> dB would
  give code 196.  The cast of the source truncates: at the \<^verbatim>\<open>double\<close> nearest to \<open>0.3\<close>
  the encoder returns 195, while rounding \<open>gain * 2\<close> to nearest and adding 195 gives 196.
\<close>

theorem rx_gain_encoder_rounds_counterexample:
  "0 \<le> to_double (3 / 10) \<and> to_double (3 / 10) \<le> 30 \<and>
   uint (convert_rx_gain_to_mykonos (to_double (3 / 10))) = 195 \<and>
   round (to_double (3 / 10) * 2) + 195 = (196 :: int)"
  by code_simp

text \<open>
  C3, amended.  For every \<^verbatim>\<open>double\<close> gain in \<open>[0, 30]\<close> the RX gain encoder returns the
  double-precision value of \<open>gain * 2 + 195\<close> with its fraction discarded (truncation, not
  rounding to nearest), and that code lies in \<open>195 .. 255\<close>.
\<close>

theorem rx_gain_encoder_truncates:
  assumes "is_double g" "0 \<le> g" "g \<le> 30"
  shows "uint (convert_rx_gain_to_mykonos g) = \<lfloor>to_double (g * 2 + 195)\<rfloor> \<and>
         195 \<le> uint (convert_rx_gain_to_mykonos g) \<and>
         uint (convert_rx_gain_to_mykonos g) \<le> 255"
proof -
  let ?s = "to_double (g * 2 + 195)"
  have s: "195 \<le> ?s" "?s \<le> 255"
    using to_double_195_255 [of "g * 2 + 195"] assms(2,3) by simp_all
  have "dadd (dmul g 2) 195 = ?s"
    using is_double_twice [OF assms(1)] by (simp add: dadd_def dmul_def)
  then have c: "convert_rx_gain_to_mykonos g = word_of_int \<lfloor>?s\<rfloor>"
    using s by (simp add: convert_rx_gain_to_mykonos_def double_to_uint8_def trunc_toward_zero_def)
  have f: "195 \<le> \<lfloor>?s\<rfloor>" "\<lfloor>?s\<rfloor> \<le> 255"
    using s by (simp_all add: le_floor_iff floor_le_iff)
  then have "uint (word_of_int \<lfloor>?s\<rfloor> :: 8 word) = \<lfloor>?s\<rfloor>"
    by (simp add: uint_word_of_int)
  then show ?thesis using c f by simp
qed

theorem rx_gain_encoder_truncates_witness:
  "is_double (to_double (3 / 10)) \<and> 0 \<le> to_double (3 / 10) \<and> to_double (3 / 10) \<le> 30 \<and>
   uint (convert_rx_gain_to_mykonos (to_double (3 / 10))) = \<lfloor>to_double (to_double (3 / 10) * 2 + 195)\<rfloor> \<and>
   195 \<le> uint (convert_rx_gain_to_mykonos (to_double (3 / 10))) \<and>
   uint (convert_rx_gain_to_mykonos (to_double (3 / 10))) \<le> 255"
proof -
  have h: "is_double (to_double (3 / 10))" "0 \<le> to_double (3 / 10)" "to_double (3 / 10) \<le> 30"
    by code_simp+
  show ?thesis using h rx_gain_encoder_truncates [OF h] by blast
qed

subsection \<open>TX gain encoder at the boundary gains\<close>

text \<open>
  C4.  The TX gain encoder maps the two boundary gains exactly: gain \<open>0.0\<close> gives the
  attenuation code 41950 and gain \<open>41.95\<close> (the \<^verbatim>\<open>double\<close> nearest to it, which is
  \<open>MAX_TX_GAIN\<close>) gives code 0, in double-precision arithmetic followed by the cast to a
  16-bit code.
\<close>

theorem tx_gain_boundary_codes:
  "convert_tx_gain_to_mykonos 0 = 41950 \<and>
   convert_tx_gain_to_mykonos (to_double (4195 / 100)) = 0"
  by code_simp

subsection \<open>The gain-pin store across the pin application\<close>

lemmas prog_simps = bind_def return_def throw_def vendor_call_def
  call_api_function_def call_gpio_api_function_def

lemma move_to_config_state_frame:
  "\<exists>r s'. move_to_config_state api s = Some (r, s') \<and> gain_ctrl s' = gain_ctrl s"
  by (simp add: move_to_config_state_def stop_radio_def prog_simps Let_def)

lemma restore_from_config_state_frame:
  "\<exists>r s'. restore_from_config_state api st s = Some (r, s') \<and> gain_ctrl s' = gain_ctrl s"
  by (simp add: restore_from_config_state_def start_radio_def prog_simps)

lemma call_gpio_api_function_frame:
  "\<exists>r s'. call_gpio_api_function api c s = Some (r, s') \<and> gain_ctrl s' = gain_ctrl s"
  by (simp add: prog_simps)

lemma bind_frame:
  assumes "\<And>s. \<exists>r s'. m s = Some (r, s') \<and> gain_ctrl s' = gain_ctrl s"
    and "\<And>x s. \<exists>r s'. f x s = Some (r, s') \<and> gain_ctrl s' = gain_ctrl s"
  shows "\<exists>r s'. bind m f s = Some (r, s') \<and> gain_ctrl s' = gain_ctrl s"
proof -
  from assms(1) obtain r s1 where m: "m s = Some (r, s1)" "gain_ctrl s1 = gain_ctrl s" by blast
  show ?thesis
  proof (cases r)
    case (Inl e)
    then show ?thesis using m by (simp add: bind_def)
  next
    case (Inr x)
    from assms(2) obtain r2 s2 where "f x s1 = Some (r2, s2)" "gain_ctrl s2 = gain_ctrl s1" by blast
    then show ?thesis using m Inr by (simp add: bind_def)
  qed
qed

lemma apply_gain_pins_frame:
  "\<exists>r s'. apply_gain_pins api direction chain s = Some (r, s') \<and> gain_ctrl s' = gain_ctrl s"
  unfolding apply_gain_pins_def
  apply (rule bind_frame)
   apply (simp add: config_at_def)
  apply (rule bind_frame)
   apply (simp add: prog_simps)
  apply (rule bind_frame)
   apply (rule move_to_config_state_frame)
  apply (rule bind_frame)
   apply (simp add: prog_simps split: direction_t.split)
  apply (rule restore_from_config_state_frame)
  done

lemma apply_gain_pins_tx_assert:
  assumes "inc_step (gain_ctrl s TX_DIRECTION chain) \<noteq> dec_step (gain_ctrl s TX_DIRECTION chain)"
  shows "apply_gain_pins api TX_DIRECTION chain s = Some (Inl Assertion_error, s)"
  using assms by (simp add: apply_gain_pins_def config_at_def prog_simps)

lemma store_channel_simps:
  "gain_ctrl (store_channel d c f s) d c = f (gain_ctrl s d c)"
  "calls (store_channel d c f s) = calls s"
  by (simp_all add: store_channel_def)

lemma set_gain_pin_step_sizes_tx:
  "set_gain_pin_step_sizes api TX_DIRECTION chain inc dec s =
     apply_gain_pins api TX_DIRECTION chain
       (store_channel TX_DIRECTION chain
          (\<lambda>c. c\<lparr>dec_step := double_to_uint8 (ddiv inc (to_double (5 / 100))),
                 inc_step := double_to_uint8 (ddiv dec (to_double (5 / 100)))\<rparr>) s)"
  by (simp add: set_gain_pin_step_sizes_def bind_def config_update_def store_channel_def)

lemma set_gain_pin_step_sizes_rx:
  "set_gain_pin_step_sizes api RX_DIRECTION chain inc dec s =
     apply_gain_pins api RX_DIRECTION chain
       (store_channel RX_DIRECTION chain
          (\<lambda>c. c\<lparr>inc_step := double_to_uint8 (ddiv inc (1 / 2)),
                 dec_step := double_to_uint8 (ddiv dec (1 / 2))\<rparr>) s)"
  by (simp add: set_gain_pin_step_sizes_def bind_def config_update_def store_channel_def)

lemma set_enable_gain_pins_stored:
  assumes "direction \<noteq> DX_DIRECTION"
  shows "set_enable_gain_pins api direction chain en s =
     apply_gain_pins api direction chain
       (store_channel direction chain (\<lambda>c. c\<lparr>enable := en\<rparr>) s)"
  using assms
  by (simp add: set_enable_gain_pins_def bind_def config_update_def store_channel_def)

lemma tx_step_codes:
  "double_to_uint8 (ddiv (to_double (1 / 10)) (to_double (5 / 100))) = 2"
  "double_to_uint8 (ddiv (to_double (1 / 5)) (to_double (5 / 100))) = 4"
  by code_simp+

lemma enable_fails_at_tx1_pin:
  "set_enable_gain_pins api_tx1_pin_fails TX_DIRECTION ONE True state0 =
     Some (Inl (Mykonos_gpio_error 1),
           (store_channel TX_DIRECTION ONE (\<lambda>c. c\<lparr>enable := True\<rparr>) state0)
             \<lparr>calls := [MYKONOS_getRadioState, MYKONOS_setTx1AttenCtrlPin 1 0 1 True 0]\<rparr>)"
  by (simp add: set_enable_gain_pins_stored apply_gain_pins_def config_at_def
      move_to_config_state_def prog_simps store_channel_def state0_def api_tx1_pin_fails_def
      MYKONOS_ERR_OK_def MYKONOS_ERR_GPIO_OK_def Let_def)

subsection \<open>Entering and leaving the configuration state\<close>

text \<open>
  C6.  Whatever radio status the hardware reports: \<open>move_to_config_state\<close> reads the status
  and, exactly when its two lowest bits (RX on, TX on) are both set, issues one radio-off
  call and returns \<open>ON\<close>; otherwise it returns \<open>OFF\<close> and issues nothing after the status
  read.  \<open>restore_from_config_state ON\<close> issues exactly one radio-on call, and
  \<open>restore_from_config_state OFF\<close> issues no call.  (The vendor calls involved report
  success; a failing one throws instead.)
\<close>

theorem config_state_bracketing:
  assumes "err (api (calls s) MYKONOS_getRadioState) = MYKONOS_ERR_OK"
    and "err (api (calls s @ [MYKONOS_getRadioState]) MYKONOS_radioOff) = MYKONOS_ERR_OK"
    and "err (api (calls s) MYKONOS_radioOn) = MYKONOS_ERR_OK"
  shows "move_to_config_state api s =
           Some (if (of_nat (out (api (calls s) MYKONOS_getRadioState)) :: 32 word) AND 3 = 3
                 then (Inr ON, s\<lparr>calls := calls s @ [MYKONOS_getRadioState, MYKONOS_radioOff]\<rparr>)
                 else (Inr OFF, s\<lparr>calls := calls s @ [MYKONOS_getRadioState]\<rparr>)) \<and>
         restore_from_config_state api ON s = Some (Inr (), s\<lparr>calls := calls s @ [MYKONOS_radioOn]\<rparr>) \<and>
         restore_from_config_state api OFF s = Some (Inr (), s)"
  using assms
  by (simp add: move_to_config_state_def restore_from_config_state_def stop_radio_def
      start_radio_def prog_simps Let_def)

theorem config_state_bracketing_witness:
  "move_to_config_state api_radio_on state0 =
     Some (Inr ON, state0\<lparr>calls := [MYKONOS_getRadioState, MYKONOS_radioOff]\<rparr>) \<and>
   restore_from_config_state api_radio_on ON state0 = Some (Inr (), state0\<lparr>calls := [MYKONOS_radioOn]\<rparr>) \<and>
   restore_from_config_state api_radio_on OFF state0 = Some (Inr (), state0)"
  using config_state_bracketing [of api_radio_on state0]
  by (simp add: api_radio_on_def state0_def MYKONOS_ERR_OK_def)

subsection \<open>TX gain pins need equal steps\<close>

text \<open>
  C7.  For every TX chain: when the increment and decrement step values convert to unequal
  hardware step codes, \<open>set_gain_pin_step_sizes\<close> throws the assertion failure and the
  log of external calls is as before, so no gain-pin setter and no radio on/off call was
  issued.
\<close>

theorem tx_unequal_steps_assert:
  assumes "double_to_uint8 (ddiv inc (to_double (5 / 100))) \<noteq>
           double_to_uint8 (ddiv dec (to_double (5 / 100)))"
  shows "\<exists>s'. set_gain_pin_step_sizes api TX_DIRECTION chain inc dec s =
                 Some (Inl Assertion_error, s') \<and> calls s' = calls s"
proof -
  let ?s1 = "store_channel TX_DIRECTION chain
          (\<lambda>c. c\<lparr>dec_step := double_to_uint8 (ddiv inc (to_double (5 / 100))),
                 inc_step := double_to_uint8 (ddiv dec (to_double (5 / 100)))\<rparr>) s"
  have "inc_step (gain_ctrl ?s1 TX_DIRECTION chain) \<noteq> dec_step (gain_ctrl ?s1 TX_DIRECTION chain)"
    using assms by (simp add: store_channel_simps)
  then have "apply_gain_pins api TX_DIRECTION chain ?s1 = Some (Inl Assertion_error, ?s1)"
    by (rule apply_gain_pins_tx_assert)
  then have "set_gain_pin_step_sizes api TX_DIRECTION chain inc dec s = Some (Inl Assertion_error, ?s1)"
    by (simp only: set_gain_pin_step_sizes_tx)
  moreover have "calls ?s1 = calls s" by (simp add: store_channel_simps)
  ultimately show ?thesis by blast
qed

theorem tx_unequal_steps_assert_witness:
  "\<exists>s'. set_gain_pin_step_sizes api_radio_on TX_DIRECTION ONE (to_double (1 / 10)) (to_double (1 / 5)) state0 =
          Some (Inl Assertion_error, s') \<and> calls s' = calls state0"
  by (rule tx_unequal_steps_assert) (simp only: tx_step_codes, simp)

subsection \<open>Which field each step lands in\<close>

text \<open>
  C9.  For TX, \<open>set_gain_pin_step_sizes\<close> leaves the converted increment step in the
  store's \<open>dec_step\<close> field and the converted decrement step in its \<open>inc_step\<close> field; for
  RX, increment goes to \<open>inc_step\<close> and decrement to \<open>dec_step\<close>.  This holds whatever the
  call returns or throws afterwards.
\<close>

theorem gain_pin_steps_stored:
  "(\<exists>r s'. set_gain_pin_step_sizes api TX_DIRECTION chain inc dec s = Some (r, s') \<and>
      dec_step (gain_ctrl s' TX_DIRECTION chain) = double_to_uint8 (ddiv inc (to_double (5 / 100))) \<and>
      inc_step (gain_ctrl s' TX_DIRECTION chain) = double_to_uint8 (ddiv dec (to_double (5 / 100)))) \<and>
   (\<exists>r s'. set_gain_pin_step_sizes api RX_DIRECTION chain inc dec s = Some (r, s') \<and>
      inc_step (gain_ctrl s' RX_DIRECTION chain) = double_to_uint8 (ddiv inc (1 / 2)) \<and>
      dec_step (gain_ctrl s' RX_DIRECTION chain) = double_to_uint8 (ddiv dec (1 / 2)))"
proof
  let ?t = "store_channel TX_DIRECTION chain
          (\<lambda>c. c\<lparr>dec_step := double_to_uint8 (ddiv inc (to_double (5 / 100))),
                 inc_step := double_to_uint8 (ddiv dec (to_double (5 / 100)))\<rparr>) s"
  obtain r s' where a: "apply_gain_pins api TX_DIRECTION chain ?t = Some (r, s')"
      "gain_ctrl s' = gain_ctrl ?t"
    using apply_gain_pins_frame [of api TX_DIRECTION chain ?t] by blast
  have "set_gain_pin_step_sizes api TX_DIRECTION chain inc dec s = Some (r, s')"
    using a(1) by (simp only: set_gain_pin_step_sizes_tx)
  moreover have "dec_step (gain_ctrl s' TX_DIRECTION chain) = double_to_uint8 (ddiv inc (to_double (5 / 100)))"
      "inc_step (gain_ctrl s' TX_DIRECTION chain) = double_to_uint8 (ddiv dec (to_double (5 / 100)))"
    by (simp_all add: a(2) store_channel_simps)
  ultimately show "\<exists>r s'. set_gain_pin_step_sizes api TX_DIRECTION chain inc dec s = Some (r, s') \<and>
      dec_step (gain_ctrl s' TX_DIRECTION chain) = double_to_uint8 (ddiv inc (to_double (5 / 100))) \<and>
      inc_step (gain_ctrl s' TX_DIRECTION chain) = double_to_uint8 (ddiv dec (to_double (5 / 100)))"
    by blast
next
  let ?t = "store_channel RX_DIRECTION chain
          (\<lambda>c. c\<lparr>inc_step := double_to_uint8 (ddiv inc (1 / 2)),
                 dec_step := double_to_uint8 (ddiv dec (1 / 2))\<rparr>) s"
  obtain r s' where a: "apply_gain_pins api RX_DIRECTION chain ?t = Some (r, s')"
      "gain_ctrl s' = gain_ctrl ?t"
    using apply_gain_pins_frame [of api RX_DIRECTION chain ?t] by blast
  have "set_gain_pin_step_sizes api RX_DIRECTION chain inc dec s = Some (r, s')"
    using a(1) by (simp only: set_gain_pin_step_sizes_rx)
  moreover have "inc_step (gain_ctrl s' RX_DIRECTION chain) = double_to_uint8 (ddiv inc (1 / 2))"
      "dec_step (gain_ctrl s' RX_DIRECTION chain) = double_to_uint8 (ddiv dec (1 / 2))"
    by (simp_all add: a(2) store_channel_simps)
  ultimately show "\<exists>r s'. set_gain_pin_step_sizes api RX_DIRECTION chain inc dec s = Some (r, s') \<and>
      inc_step (gain_ctrl s' RX_DIRECTION chain) = double_to_uint8 (ddiv inc (1 / 2)) \<and>
      dec_step (gain_ctrl s' RX_DIRECTION chain) = double_to_uint8 (ddiv dec (1 / 2))"
    by blast
qed

subsection \<open>No rollback of the store\<close>

text \<open>
  C10.  \<open>set_gain_pin_step_sizes\<close> and \<open>set_enable_gain_pins\<close> write the store before
  \<open>apply_gain_pins\<close> validates or touches the hardware: whenever the call ends in an
  exception (the TX equal-step assertion included), the store holds the newly written
  values.
\<close>

theorem gain_pin_store_kept_on_failure:
  assumes "direction \<noteq> DX_DIRECTION"
  shows "(set_gain_pin_step_sizes api direction chain inc dec s = Some (Inl e, s') \<longrightarrow>
            gain_ctrl s' direction chain =
              (if direction = TX_DIRECTION
               then (gain_ctrl s direction chain)
                      \<lparr>dec_step := double_to_uint8 (ddiv inc (to_double (5 / 100))),
                       inc_step := double_to_uint8 (ddiv dec (to_double (5 / 100)))\<rparr>
               else (gain_ctrl s direction chain)
                      \<lparr>inc_step := double_to_uint8 (ddiv inc (1 / 2)),
                       dec_step := double_to_uint8 (ddiv dec (1 / 2))\<rparr>)) \<and>
         (set_enable_gain_pins api direction chain en s = Some (Inl e2, s2) \<longrightarrow>
            gain_ctrl s2 direction chain = (gain_ctrl s direction chain)\<lparr>enable := en\<rparr>)"
proof (intro conjI impI)
  assume a: "set_gain_pin_step_sizes api direction chain inc dec s = Some (Inl e, s')"
  show "gain_ctrl s' direction chain =
              (if direction = TX_DIRECTION
               then (gain_ctrl s direction chain)
                      \<lparr>dec_step := double_to_uint8 (ddiv inc (to_double (5 / 100))),
                       inc_step := double_to_uint8 (ddiv dec (to_double (5 / 100)))\<rparr>
               else (gain_ctrl s direction chain)
                      \<lparr>inc_step := double_to_uint8 (ddiv inc (1 / 2)),
                       dec_step := double_to_uint8 (ddiv dec (1 / 2))\<rparr>)"
  proof (cases direction)
    case RX_DIRECTION
    let ?t = "store_channel RX_DIRECTION chain
          (\<lambda>c. c\<lparr>inc_step := double_to_uint8 (ddiv inc (1 / 2)),
                 dec_step := double_to_uint8 (ddiv dec (1 / 2))\<rparr>) s"
    have "apply_gain_pins api RX_DIRECTION chain ?t = Some (Inl e, s')"
      using a RX_DIRECTION by (simp only: set_gain_pin_step_sizes_rx)
    then have "gain_ctrl s' = gain_ctrl ?t"
      using apply_gain_pins_frame [of api RX_DIRECTION chain ?t] by simp
    then show ?thesis using RX_DIRECTION by (simp add: store_channel_simps)
  next
    case TX_DIRECTION
    let ?t = "store_channel TX_DIRECTION chain
          (\<lambda>c. c\<lparr>dec_step := double_to_uint8 (ddiv inc (to_double (5 / 100))),
                 inc_step := double_to_uint8 (ddiv dec (to_double (5 / 100)))\<rparr>) s"
    have "apply_gain_pins api TX_DIRECTION chain ?t = Some (Inl e, s')"
      using a TX_DIRECTION by (simp only: set_gain_pin_step_sizes_tx)
    then have "gain_ctrl s' = gain_ctrl ?t"
      using apply_gain_pins_frame [of api TX_DIRECTION chain ?t] by simp
    then show ?thesis using TX_DIRECTION by (simp add: store_channel_simps)
  next
    case DX_DIRECTION
    then show ?thesis using assms by simp
  qed
next
  assume a: "set_enable_gain_pins api direction chain en s = Some (Inl e2, s2)"
  let ?t = "store_channel direction chain (\<lambda>c. c\<lparr>enable := en\<rparr>) s"
  have "apply_gain_pins api direction chain ?t = Some (Inl e2, s2)"
    using a by (simp only: set_enable_gain_pins_stored [OF assms])
  then have "gain_ctrl s2 = gain_ctrl ?t"
    using apply_gain_pins_frame [of api direction chain ?t] by simp
  then show "gain_ctrl s2 direction chain = (gain_ctrl s direction chain)\<lparr>enable := en\<rparr>"
    by (simp add: store_channel_simps)
qed

theorem gain_pin_store_kept_on_failure_witness:
  "\<exists>s1 s2.
     set_gain_pin_step_sizes api_tx1_pin_fails TX_DIRECTION ONE (to_double (1 / 10)) (to_double (1 / 5)) state0 =
       Some (Inl Assertion_error, s1) \<and>
     inc_step (gain_ctrl s1 TX_DIRECTION ONE) = 4 \<and>
     dec_step (gain_ctrl s1 TX_DIRECTION ONE) = 2 \<and>
     inc_step (gain_ctrl state0 TX_DIRECTION ONE) = 1 \<and>
     set_enable_gain_pins api_tx1_pin_fails TX_DIRECTION ONE True state0 =
       Some (Inl (Mykonos_gpio_error 1), s2) \<and>
     enable (gain_ctrl s2 TX_DIRECTION ONE) \<and>
     \<not> enable (gain_ctrl state0 TX_DIRECTION ONE)"
proof -
  let ?t = "store_channel TX_DIRECTION ONE
          (\<lambda>c. c\<lparr>dec_step := double_to_uint8 (ddiv (to_double (1 / 10)) (to_double (5 / 100))),
                 inc_step := double_to_uint8 (ddiv (to_double (1 / 5)) (to_double (5 / 100)))\<rparr>) state0"
  let ?u = "(store_channel TX_DIRECTION ONE (\<lambda>c. c\<lparr>enable := True\<rparr>) state0)
             \<lparr>calls := [MYKONOS_getRadioState, MYKONOS_setTx1AttenCtrlPin 1 0 1 True 0]\<rparr>"
  have "inc_step (gain_ctrl ?t TX_DIRECTION ONE) \<noteq> dec_step (gain_ctrl ?t TX_DIRECTION ONE)"
    by (simp only: store_channel_simps tx_step_codes) simp
  then have "apply_gain_pins api_tx1_pin_fails TX_DIRECTION ONE ?t = Some (Inl Assertion_error, ?t)"
    by (rule apply_gain_pins_tx_assert)
  then have 1: "set_gain_pin_step_sizes api_tx1_pin_fails TX_DIRECTION ONE
      (to_double (1 / 10)) (to_double (1 / 5)) state0 = Some (Inl Assertion_error, ?t)"
    by (simp only: set_gain_pin_step_sizes_tx)
  note 2 = enable_fails_at_tx1_pin
  have d: "TX_DIRECTION \<noteq> DX_DIRECTION" by simp
  note k = gain_pin_store_kept_on_failure [OF d, of api_tx1_pin_fails ONE
      "to_double (1 / 10)" "to_double (1 / 5)" state0 Assertion_error ?t True
      "Mykonos_gpio_error 1" ?u]
  from k 1 have 3: "gain_ctrl ?t TX_DIRECTION ONE = (gain_ctrl state0 TX_DIRECTION ONE)
      \<lparr>dec_step := double_to_uint8 (ddiv (to_double (1 / 10)) (to_double (5 / 100))),
       inc_step := double_to_uint8 (ddiv (to_double (1 / 5)) (to_double (5 / 100)))\<rparr>"
    by simp
  from k 2 have 4: "gain_ctrl ?u TX_DIRECTION ONE = (gain_ctrl state0 TX_DIRECTION ONE)\<lparr>enable := True\<rparr>"
    by simp
  have 5: "inc_step (gain_ctrl ?t TX_DIRECTION ONE) = 4" "dec_step (gain_ctrl ?t TX_DIRECTION ONE) = 2"
    unfolding 3 by (simp_all only: tx_step_codes) simp_all
  have 6: "enable (gain_ctrl ?u TX_DIRECTION ONE)" unfolding 4 by simp
  have 7: "inc_step (gain_ctrl state0 TX_DIRECTION ONE) = 1" "\<not> enable (gain_ctrl state0 TX_DIRECTION ONE)"
    by (simp_all add: state0_def)
  from 1 2 5 6 7 show ?thesis by blast
qed

subsection \<open>Waiting for the PLL lock\<close>

lemma get_pll_lock_status_single_ok:
  assumes "err (api (calls s) MYKONOS_checkPllsLockStatus) = MYKONOS_ERR_OK"
  shows "get_pll_lock_status_single api pll s =
           Some (Inr ((of_nat (out (api (calls s) MYKONOS_checkPllsLockStatus)) :: 8 word) AND pll = pll),
                 s\<lparr>calls := calls s @ [MYKONOS_checkPllsLockStatus]\<rparr>)"
  using assms by (simp add: get_pll_lock_status_single_def prog_simps Let_def)

lemma lock_wait_loop_never_locked:
  assumes never: "\<And>h. err (api h MYKONOS_checkPllsLockStatus) = MYKONOS_ERR_OK \<and>
                      (of_nat (out (api h MYKONOS_checkPllsLockStatus)) :: 8 word) AND pll \<noteq> pll"
    and clock: "\<And>h. N \<le> length h \<Longrightarrow> lock_time \<le> out (api h Steady_clock_now)"
  shows "\<exists>h. lock_wait_loop api pll lock_time False s =
               Some (Inr False, s\<lparr>calls := h @ [Steady_clock_now]\<rparr>) \<and>
             lock_time \<le> out (api h Steady_clock_now)"
proof (induction "N - length (calls s)" arbitrary: s rule: less_induct)
  case less
  let ?s1 = "s\<lparr>calls := calls s @ [Steady_clock_now]\<rparr>"
  show ?case
  proof (cases "lock_time > out (api (calls s) Steady_clock_now)")
    case False
    then have "lock_wait_loop api pll lock_time False s = Some (Inr False, ?s1)"
      by (subst lock_wait_loop.simps) (simp add: vendor_call_def)
    then show ?thesis using False by (intro exI [of _ "calls s"]) simp
  next
    case True
    then have len: "length (calls s) < N"
      using clock [of "calls s"] by (cases "N \<le> length (calls s)") auto
    let ?s2 = "?s1\<lparr>calls := calls ?s1 @ [MYKONOS_checkPllsLockStatus]\<rparr>"
    have single: "get_pll_lock_status_single api pll ?s1 = Some (Inr False, ?s2)"
      using never [of "calls ?s1"] get_pll_lock_status_single_ok [of api ?s1 pll] by simp
    have unfold: "lock_wait_loop api pll lock_time False s = lock_wait_loop api pll lock_time False ?s2"
      using True by (subst lock_wait_loop.simps) (simp add: vendor_call_def single)
    have "N - length (calls ?s2) < N - length (calls s)" using len by simp
    from less [OF this] obtain h where
      "lock_wait_loop api pll lock_time False ?s2 = Some (Inr False, ?s2\<lparr>calls := h @ [Steady_clock_now]\<rparr>)"
      "lock_time \<le> out (api h Steady_clock_now)" by blast
    then show ?thesis using unfold by (intro exI [of _ h]) simp
  qed
qed

text \<open>
  C8.  A single-shot check (\<open>wait_for_lock\<close> false) returns true exactly when all bits of
  the mask are set in the status just read.  If the lock-status source never reports all
  requested bits set, \<open>get_pll_lock_status\<close> with \<open>wait_for_lock\<close> true returns, and
  returns false; the last two external calls are a clock read at or after the deadline and
  one more lock check, whose result is what is returned.  Time is seen through the clock
  reads only, so that the clock passes the deadline is a premise: after some number of
  external calls every clock read is at or after the deadline.
\<close>

theorem pll_lock_wait_times_out:
  "(err (api (calls s) MYKONOS_checkPllsLockStatus) = MYKONOS_ERR_OK \<longrightarrow>
      get_pll_lock_status api pll False s =
        Some (Inr ((of_nat (out (api (calls s) MYKONOS_checkPllsLockStatus)) :: 8 word) AND pll = pll),
              s\<lparr>calls := calls s @ [MYKONOS_checkPllsLockStatus]\<rparr>)) \<and>
   ((\<forall>h. err (api h MYKONOS_checkPllsLockStatus) = MYKONOS_ERR_OK \<and>
          (of_nat (out (api h MYKONOS_checkPllsLockStatus)) :: 8 word) AND pll \<noteq> pll) \<and>
    (\<exists>N. \<forall>h. N \<le> length h \<longrightarrow>
          out (api (calls s @ [MYKONOS_checkPllsLockStatus]) Steady_clock_now) +
            PLL_LOCK_TIMEOUT_MS * steady_clock_ticks_per_ms \<le> out (api h Steady_clock_now)) \<longrightarrow>
    (\<exists>h. get_pll_lock_status api pll True s =
            Some (Inr False, s\<lparr>calls := h @ [Steady_clock_now, MYKONOS_checkPllsLockStatus]\<rparr>) \<and>
          out (api (calls s @ [MYKONOS_checkPllsLockStatus]) Steady_clock_now) +
            PLL_LOCK_TIMEOUT_MS * steady_clock_ticks_per_ms \<le> out (api h Steady_clock_now)))"
proof (intro conjI impI)
  assume "err (api (calls s) MYKONOS_checkPllsLockStatus) = MYKONOS_ERR_OK"
  then show "get_pll_lock_status api pll False s =
        Some (Inr ((of_nat (out (api (calls s) MYKONOS_checkPllsLockStatus)) :: 8 word) AND pll = pll),
              s\<lparr>calls := calls s @ [MYKONOS_checkPllsLockStatus]\<rparr>)"
    by (simp add: get_pll_lock_status_def prog_simps Let_def)
next
  let ?lock_time = "out (api (calls s @ [MYKONOS_checkPllsLockStatus]) Steady_clock_now) +
            PLL_LOCK_TIMEOUT_MS * steady_clock_ticks_per_ms"
  assume a: "(\<forall>h. err (api h MYKONOS_checkPllsLockStatus) = MYKONOS_ERR_OK \<and>
          (of_nat (out (api h MYKONOS_checkPllsLockStatus)) :: 8 word) AND pll \<noteq> pll) \<and>
    (\<exists>N. \<forall>h. N \<le> length h \<longrightarrow> ?lock_time \<le> out (api h Steady_clock_now))"
  then have never: "\<And>h. err (api h MYKONOS_checkPllsLockStatus) = MYKONOS_ERR_OK \<and>
          (of_nat (out (api h MYKONOS_checkPllsLockStatus)) :: 8 word) AND pll \<noteq> pll"
    by blast
  from a obtain N where clock: "\<And>h. N \<le> length h \<Longrightarrow> ?lock_time \<le> out (api h Steady_clock_now)"
    by blast
  let ?s2 = "s\<lparr>calls := calls s @ [MYKONOS_checkPllsLockStatus, Steady_clock_now]\<rparr>"
  from lock_wait_loop_never_locked [of api pll N ?lock_time ?s2, OF never clock]
  obtain h where loop: "lock_wait_loop api pll ?lock_time False ?s2 =
               Some (Inr False, ?s2\<lparr>calls := h @ [Steady_clock_now]\<rparr>)"
    and late: "?lock_time \<le> out (api h Steady_clock_now)" by blast
  let ?s3 = "s\<lparr>calls := h @ [Steady_clock_now]\<rparr>"
  have s3: "?s2\<lparr>calls := h @ [Steady_clock_now]\<rparr> = ?s3" by simp
  have last: "get_pll_lock_status_single api pll ?s3 =
      Some (Inr False, s\<lparr>calls := h @ [Steady_clock_now, MYKONOS_checkPllsLockStatus]\<rparr>)"
    using never [of "calls ?s3"] get_pll_lock_status_single_ok [of api ?s3 pll] by simp
  have "get_pll_lock_status api pll True s =
      Some (Inr False, s\<lparr>calls := h @ [Steady_clock_now, MYKONOS_checkPllsLockStatus]\<rparr>)"
    using never [of "calls s"] loop last
    by (simp add: get_pll_lock_status_def steady_clock_now_def prog_simps Let_def s3)
  with late show "\<exists>h. get_pll_lock_status api pll True s =
            Some (Inr False, s\<lparr>calls := h @ [Steady_clock_now, MYKONOS_checkPllsLockStatus]\<rparr>) \<and>
          ?lock_time \<le> out (api h Steady_clock_now)" by blast
qed

theorem pll_lock_wait_times_out_witness:
  "\<exists>h. get_pll_lock_status api_never_locks 15 True state0 =
          Some (Inr False, state0\<lparr>calls := h @ [Steady_clock_now, MYKONOS_checkPllsLockStatus]\<rparr>) \<and>
        get_pll_lock_status api_never_locks 15 False state0 =
          Some (Inr False, state0\<lparr>calls := [MYKONOS_checkPllsLockStatus]\<rparr>)"
proof -
  have never: "\<forall>h. err (api_never_locks h MYKONOS_checkPllsLockStatus) = MYKONOS_ERR_OK \<and>
      (of_nat (out (api_never_locks h MYKONOS_checkPllsLockStatus)) :: 8 word) AND 15 \<noteq> 15"
    by (simp add: api_never_locks_def MYKONOS_ERR_OK_def)
  have clock: "\<exists>N. \<forall>h. N \<le> length h \<longrightarrow>
      out (api_never_locks (calls state0 @ [MYKONOS_checkPllsLockStatus]) Steady_clock_now) +
        PLL_LOCK_TIMEOUT_MS * steady_clock_ticks_per_ms \<le> out (api_never_locks h Steady_clock_now)"
    by (intro exI [of _ 4])
      (simp add: api_never_locks_def state0_def PLL_LOCK_TIMEOUT_MS_def steady_clock_ticks_per_ms_def)
  have single: "(of_nat (out (api_never_locks (calls state0) MYKONOS_checkPllsLockStatus)) :: 8 word) AND 15 \<noteq> 15"
      "err (api_never_locks (calls state0) MYKONOS_checkPllsLockStatus) = MYKONOS_ERR_OK"
      "calls state0 = []"
    by (simp_all add: api_never_locks_def MYKONOS_ERR_OK_def state0_def)
  show ?thesis
    using pll_lock_wait_times_out [of api_never_locks state0 15] never clock single
    by auto
qed

subsection \<open>The value \<open>set_gain\<close> returns\<close>

lemma default_codes:
  "double_to_uint64 RX_DEFAULT_FREQ = 2500000000"
  "double_to_uint64 TX_DEFAULT_FREQ = 2500000000"
  "convert_rx_gain_to_mykonos RX_DEFAULT_GAIN = 195"
  "convert_tx_gain_to_mykonos TX_DEFAULT_GAIN = 41950"
  "convert_rx_gain_to_mykonos 0 = 195"
  "convert_tx_gain_to_mykonos 0 = 41950"
  by code_simp+

lemma dsub_self: "dsub a a = 0"
  by (simp add: dsub_def to_double_def)

lemma written_codes_decoded:
  "uint8_to_double 195 = 195"
  "uint16_to_double 41950 = 41950"
  "convert_rx_gain_from_mykonos 195 = 0"
  "convert_tx_gain_from_mykonos 41950 = 0"
proof -
  show 1: "uint8_to_double 195 = 195" by (simp add: uint8_to_double_def)
  show 2: "uint16_to_double 41950 = 41950" by (simp add: uint16_to_double_def)
  have "dsub (uint8_to_double 195) 195 = 0" unfolding 1 by (rule dsub_self)
  then show "convert_rx_gain_from_mykonos 195 = 0"
    by (simp add: convert_rx_gain_from_mykonos_def ddiv_def to_double_def)
  have "ddiv (uint16_to_double 41950) 1000 = MAX_TX_GAIN"
    unfolding 2 by (simp add: ddiv_def MAX_TX_GAIN_def)
  then show "convert_tx_gain_from_mykonos 41950 = 0"
    by (simp add: convert_tx_gain_from_mykonos_def dsub_self)
qed

text \<open>
  C2 says that \<open>set_gain\<close> returns the gain decoded from the code it wrote.  The source
  returns the code itself, converted to \<^verbatim>\<open>double\<close> (its own comment calls the value
  wrong): setting the RX gain of chain one to 0 dB writes code 195 and returns 195, while
  code 195 decodes to 0 dB; setting the TX gain to 0 dB writes the attenuation code 41950
  and returns 41950, while that code decodes to 0 dB.
\<close>

theorem set_gain_returns_raw_code:
  "set_gain api_all_ok RX_DIRECTION ONE 0 state0 =
     Some (Inr 195, state0\<lparr>calls := [MYKONOS_getRadioState, MYKONOS_setRx1ManualGain 195]\<rparr>) \<and>
   convert_rx_gain_from_mykonos 195 = 0 \<and>
   set_gain api_all_ok TX_DIRECTION ONE 0 state0 =
     Some (Inr 41950, state0\<lparr>calls := [MYKONOS_getRadioState, MYKONOS_setTx1Attenuation 41950]\<rparr>) \<and>
   convert_tx_gain_from_mykonos 41950 = 0"
  by (simp add: set_gain_def move_to_config_state_def restore_from_config_state_def
      prog_simps Let_def api_all_ok_def state0_def MYKONOS_ERR_OK_def default_codes
      written_codes_decoded)

subsection \<open>A firmware file that is too short\<close>

text \<open>
  A short read sets \<^verbatim>\<open>failbit\<close> and \<^verbatim>\<open>eofbit\<close> only, and the source tests \<^verbatim>\<open>bad()\<close>:
  the buffer keeps its zeros after the bytes read and is returned.
\<close>

lemma get_arm_binary_short_file:
  assumes "fs get_arm_binary_path = Some f" "\<not> read_fault f" "length (content f) < ARM_BINARY_SIZE"
  shows "get_arm_binary fs s =
           Some (Inr (content f @ replicate (ARM_BINARY_SIZE - length (content f)) 0), s)"
  using assms by (simp add: get_arm_binary_def prog_simps Let_def min_def)

lemma call_api_function_all_ok:
  "call_api_function api_all_ok c s = Some (Inr (api_all_ok (calls s) c), s\<lparr>calls := calls s @ [c]\<rparr>)"
  "call_gpio_api_function api_all_ok c s = Some (Inr (api_all_ok (calls s) c), s\<lparr>calls := calls s @ [c]\<rparr>)"
  by (simp_all add: prog_simps api_all_ok_def MYKONOS_ERR_OK_def MYKONOS_ERR_GPIO_OK_def
      split: ext_call.split)

lemma move_to_config_state_all_ok:
  "move_to_config_state api_all_ok s = Some (Inr OFF, s\<lparr>calls := calls s @ [MYKONOS_getRadioState]\<rparr>)"
  by (simp add: move_to_config_state_def bind_def return_def call_api_function_all_ok Let_def
      api_all_ok_def)

lemma restore_from_config_state_OFF:
  "restore_from_config_state api OFF s = Some (Inr (), s)"
  by (simp add: restore_from_config_state_def return_def)

lemma lock_wait_loop_locked:
  "lock_wait_loop api pll lock_time True s = Some (Inr True, s)"
  by (subst lock_wait_loop.simps) simp

lemma lock_wait_all_ok:
  "get_pll_lock_status api_all_ok pll True s =
     Some (Inr True, s\<lparr>calls := calls s @
       [MYKONOS_checkPllsLockStatus, Steady_clock_now, Steady_clock_now, MYKONOS_checkPllsLockStatus]\<rparr>)"
proof -
  have all_bits: "(255 :: 8 word) AND pll = pll"
  proof -
    have "(255 :: 8 word) = - 1" by simp
    then show ?thesis by (simp only: word_bw_lcs word_log_esimps and.left_neutral)
  qed
  have single: "\<And>t. get_pll_lock_status_single api_all_ok pll t =
      Some (Inr True, t\<lparr>calls := calls t @ [MYKONOS_checkPllsLockStatus]\<rparr>)"
    by (simp add: get_pll_lock_status_single_def bind_def return_def call_api_function_all_ok
        Let_def api_all_ok_def all_bits)
  have loop: "\<And>t. lock_wait_loop api_all_ok pll (PLL_LOCK_TIMEOUT_MS * steady_clock_ticks_per_ms) False t =
      Some (Inr True, t\<lparr>calls := calls t @ [Steady_clock_now, MYKONOS_checkPllsLockStatus]\<rparr>)"
    by (subst lock_wait_loop.simps)
      (simp add: vendor_call_def single lock_wait_loop_locked api_all_ok_def
        PLL_LOCK_TIMEOUT_MS_def steady_clock_ticks_per_ms_def)
  show ?thesis
    by (simp add: get_pll_lock_status_def steady_clock_now_def bind_def return_def vendor_call_def
        call_api_function_all_ok Let_def loop)
      (simp add: api_all_ok_def loop return_def all_bits)
qed

text \<open>
  C1 says that a firmware file shorter than 98304 bytes makes \<open>finish_initialization\<close>
  fail before the ARM load and the RF initialization.  The source does not check the size
  (its comment marks the check as still to be added): with a three-byte file and a device
  on which every call succeeds, \<open>finish_initialization\<close> returns normally, having loaded
  the zero-padded buffer into the ARM, tuned both PLLs and run the calibrations.
\<close>

theorem short_firmware_is_loaded:
  "\<exists>s'. finish_initialization fs_short_firmware api_all_ok state0 = Some (Inr (), s') \<and>
     MYKONOS_loadArmFromBinary ([1, 2, 3] @ replicate 98301 0) 98304 \<in> set (calls s') \<and>
     MYKONOS_setRfPllFrequency RX_PLL 2500000000 \<in> set (calls s') \<and>
     MYKONOS_setRfPllFrequency TX_PLL 2500000000 \<in> set (calls s') \<and>
     MYKONOS_runInitCals INIT_CALS \<in> set (calls s')"
proof -
  have bin: "\<And>s. get_arm_binary fs_short_firmware s = Some (Inr ([1, 2, 3] @ replicate 98301 0), s)"
    by (subst get_arm_binary_short_file [of _ "\<lparr>content = [1, 2, 3], read_fault = False\<rparr>"])
      (simp_all add: fs_short_firmware_def ARM_BINARY_SIZE_def)
  show ?thesis
    by (simp add: finish_initialization_def initialize_rf_def verify_multichip_sync_status_def
        get_multichip_sync_status_def tune_def get_freq_def set_config_value_def
        apply_gain_pins_def config_at_def set_gain_def
        bind_def return_def throw_def Let_def
        call_api_function_all_ok move_to_config_state_all_ok restore_from_config_state_OFF
        lock_wait_all_ok bin default_codes
        api_all_ok_def state0_def)
qed

end
